theory Spec2Isabelle
  imports Complex_Main
begin

section \<open>goog.i18n.TimeZone: data model\<close>

text \<open>
  The embedding follows the JavaScript source of \<open>goog.i18n.TimeZone\<close>.

  Numbers. The offsets, the adjustments and the transition points are the integers the
  documentation of the fields describes (minutes, and hours since the epoch), of type
  \<open>int\<close>, without the bound of 2^53 up to which a JavaScript number holds an integer
  exactly. The one quotient the code forms, \<open>timeInMs / MILLISECONDS_PER_HOUR_\<close>, is taken
  as the exact rational number, of type \<open>rat\<close>: the code only compares it with integer
  transition points, and a multiple of a minute divided by an hour is never so close to
  an integer that rounding could change the comparison.

  Names. A trailing underscore marks a private member in the source; the definitions drop
  it (\<open>composeGMTString_\<close> is \<open>composeGMTString\<close>, the field \<open>transitions_\<close> is
  \<open>transitions\<close>).

  Reading an array past its end yields \<open>undefined\<close> in JavaScript and raises nothing.
  \<open>array_get\<close> returns \<open>None\<close> there, and a number computed from \<open>undefined\<close> (which is
  \<open>NaN\<close> in JavaScript) is \<open>None\<close> as well.
\<close>

record TimeZone =
  timeZoneId :: string
  standardOffset :: int
  tzNames :: "string list"
  transitions :: "int list"

text \<open>The part of a \<open>Date\<close> the code reads: its UTC calendar fields, as the getters give them.\<close>

record Date =
  getUTCFullYear :: int
  getUTCMonth :: int
  getUTCDate :: int
  getUTCHours :: int
  getUTCMinutes :: int
  getUTCSeconds :: int
  getUTCMilliseconds :: int

text \<open>The object form of the argument of \<open>createTimeZone\<close>, with its four keys.\<close>

record timeZoneInfo =
  id_key :: string
  std_offset :: int
  names :: "string list"
  transitions_key :: "int list"

datatype timeZoneData = Number int | Object timeZoneInfo

definition MILLISECONDS_PER_HOUR :: int where
  "MILLISECONDS_PER_HOUR = 3600 * 1000"

datatype NameType = STD_SHORT_NAME | STD_LONG_NAME | DLT_SHORT_NAME | DLT_LONG_NAME

fun NameType_value :: "NameType \<Rightarrow> nat" where
  "NameType_value STD_SHORT_NAME = 0"
| "NameType_value STD_LONG_NAME = 1"
| "NameType_value DLT_SHORT_NAME = 2"
| "NameType_value DLT_LONG_NAME = 3"

section \<open>The language's own operations\<close>

text \<open>\<open>a[i]\<close>: the element, or \<open>undefined\<close> (\<open>None\<close>) past the end.\<close>

definition array_get :: "'a list \<Rightarrow> nat \<Rightarrow> 'a option" where
  "array_get xs i = (if i < length xs then Some (xs ! i) else None)"

text \<open>
  \<open>Date.UTC(year, month, date, hours, minutes)\<close> as ECMAScript defines it:
  \<open>MakeDay\<close> counts the days from 1 January 1970 to the given day of the proleptic Gregorian
  calendar (months count from 0 and overflow into the year), \<open>MakeTime\<close> adds the hours and
  minutes, and a year from 0 to 99 stands for 1900 plus that year.
\<close>

definition MakeDay :: "int \<Rightarrow> int \<Rightarrow> int \<Rightarrow> int" where
  "MakeDay year month date =
     (let ym = year + month div 12;
          mn = month mod 12;
          y = (if mn < 2 then ym - 1 else ym);
          era = y div 400;
          yoe = y mod 400;
          mp = (mn + 10) mod 12;
          doy = (153 * mp + 2) div 5;
          doe = yoe * 365 + yoe div 4 - yoe div 100 + doy
      in era * 146097 + doe - 719468 + (date - 1))"

definition MakeTime :: "int \<Rightarrow> int \<Rightarrow> int" where
  "MakeTime hours minutes = hours * 3600000 + minutes * 60000"

definition Date_UTC :: "int \<Rightarrow> int \<Rightarrow> int \<Rightarrow> int \<Rightarrow> int \<Rightarrow> int" where
  "Date_UTC year month date hours minutes =
     (let yr = (if 0 \<le> year \<and> year \<le> 99 then 1900 + year else year)
      in MakeDay yr month date * 86400000 + MakeTime hours minutes)"

text \<open>\<open>String(n)\<close> for an integer: its decimal digits, with a minus sign when negative.\<close>

definition digit_char :: "nat \<Rightarrow> char" where
  "digit_char d = ''0123456789'' ! (d mod 10)"

fun digits_of_nat :: "nat \<Rightarrow> string" where
  "digits_of_nat n =
     (if n < 10 then [digit_char n] else digits_of_nat (n div 10) @ [digit_char (n mod 10)])"

declare digits_of_nat.simps [simp del]

definition String_of_int :: "int \<Rightarrow> string" where
  "String_of_int n = (if n < 0 then CHR ''-'' # digits_of_nat (nat (- n)) else digits_of_nat (nat n))"

text \<open>
  Modelled from the spec: \<open>goog.string.padNumber(value, width)\<close>, the string-padding helper
  the formatters call, which is not among the source files. It renders the number and
  pads it with zeros on the left up to the width; a longer rendering is left as it is.
\<close>

definition padNumber :: "int \<Rightarrow> nat \<Rightarrow> string" where
  "padNumber num len = (let s = String_of_int num in replicate (len - length s) CHR ''0'' @ s)"

section \<open>Construction\<close>

definition composeGMTString :: "int \<Rightarrow> string" where
  "composeGMTString offset0 =
     (let parts = [''GMT''];
          parts = parts @ [if offset0 \<le> 0 then ''+'' else ''-''];
          offset = \<bar>offset0\<bar>;
          parts = parts @ [padNumber ((offset div 60) mod 100) 2, '':'', padNumber (offset mod 60) 2]
      in concat parts)"

definition composePosixTimeZoneID :: "int \<Rightarrow> string" where
  "composePosixTimeZoneID offset0 =
     (if offset0 = 0 then ''Etc/GMT''
      else
        let parts = [''Etc/GMT'', if offset0 < 0 then ''-'' else ''+''];
            offset = \<bar>offset0\<bar>;
            parts = parts @ [String_of_int ((offset div 60) mod 100)];
            offset = offset mod 60;
            parts = (if offset \<noteq> 0 then parts @ ['':'', padNumber offset 2] else parts)
        in concat parts)"

definition composeUTCString :: "int \<Rightarrow> string" where
  "composeUTCString offset0 =
     (if offset0 = 0 then ''UTC''
      else
        let parts = [''UTC'', if offset0 < 0 then ''+'' else ''-''];
            offset = \<bar>offset0\<bar>;
            parts = parts @ [String_of_int ((offset div 60) mod 100)];
            offset = offset mod 60;
            parts = (if offset \<noteq> 0 then parts @ ['':'', String_of_int offset] else parts)
        in concat parts)"

definition createSimpleTimeZone :: "int \<Rightarrow> TimeZone" where
  "createSimpleTimeZone timeZoneOffsetInMinutes =
     (let str = composeUTCString timeZoneOffsetInMinutes
      in \<lparr> timeZoneId = composePosixTimeZoneID timeZoneOffsetInMinutes,
           standardOffset = timeZoneOffsetInMinutes,
           tzNames = [str, str],
           transitions = [] \<rparr>)"

fun createTimeZone :: "timeZoneData \<Rightarrow> TimeZone" where
  "createTimeZone (Number n) = createSimpleTimeZone n"
| "createTimeZone (Object info) =
     \<lparr> timeZoneId = id_key info,
       standardOffset = - std_offset info,
       tzNames = names info,
       transitions = transitions_key info \<rparr>"

section \<open>Queries\<close>

definition timeInHours :: "Date \<Rightarrow> rat" where
  "timeInHours date =
     (let timeInMs = Date_UTC (getUTCFullYear date) (getUTCMonth date) (getUTCDate date)
                              (getUTCHours date) (getUTCMinutes date)
      in of_int timeInMs / of_int MILLISECONDS_PER_HOUR)"

text \<open>The \<open>while\<close> loop of \<open>getDaylightAdjustment\<close>: the index it ends with.\<close>

function transition_scan :: "int list \<Rightarrow> rat \<Rightarrow> nat \<Rightarrow> nat" where
  "transition_scan ts h index =
     (if index < length ts \<and> h \<ge> of_int (ts ! index)
      then transition_scan ts h (index + 2) else index)"
  by pat_completeness auto
termination
  by (relation "measure (\<lambda>(ts, h, index). length ts - index)") auto

declare transition_scan.simps [simp del]

definition getDaylightAdjustment :: "TimeZone \<Rightarrow> Date \<Rightarrow> int option" where
  "getDaylightAdjustment tz date =
     (let index = transition_scan (transitions tz) (timeInHours date) 0
      in if index = 0 then Some 0 else array_get (transitions tz) (index - 1))"

text \<open>
  The same loop, listing the positions of \<open>transitions_\<close> it reads, in order: one read for
  each evaluation of \<open>this.transitions_[index]\<close> in the loop condition (which \<open>&&\<close> skips
  when \<open>index\<close> has reached the length), and the read of \<open>index - 1\<close> in the \<open>return\<close>.
\<close>

function transition_scan_reads :: "int list \<Rightarrow> rat \<Rightarrow> nat \<Rightarrow> nat list" where
  "transition_scan_reads ts h index =
     (if index < length ts
      then index # (if h \<ge> of_int (ts ! index) then transition_scan_reads ts h (index + 2) else [])
      else [])"
  by pat_completeness auto
termination
  by (relation "measure (\<lambda>(ts, h, index). length ts - index)") auto

declare transition_scan_reads.simps [simp del]

definition getDaylightAdjustment_reads :: "TimeZone \<Rightarrow> Date \<Rightarrow> nat list" where
  "getDaylightAdjustment_reads tz date =
     (let index = transition_scan (transitions tz) (timeInHours date) 0
      in transition_scan_reads (transitions tz) (timeInHours date) 0 @
         (if index = 0 then [] else [index - 1]))"

text \<open>\<open>standardOffset_ - undefined\<close> is \<open>NaN\<close>: \<open>None\<close>.\<close>

definition getOffset :: "TimeZone \<Rightarrow> Date \<Rightarrow> int option" where
  "getOffset tz date =
     (case getDaylightAdjustment tz date of
        Some adjustment \<Rightarrow> Some (standardOffset tz - adjustment)
      | None \<Rightarrow> None)"

text \<open>\<open>undefined > 0\<close> is \<open>false\<close>.\<close>

definition isDaylightTime :: "TimeZone \<Rightarrow> Date \<Rightarrow> bool" where
  "isDaylightTime tz date =
     (case getDaylightAdjustment tz date of Some adjustment \<Rightarrow> adjustment > 0 | None \<Rightarrow> False)"

text \<open>
  The two formatters of an instant. Where the offset is not a number the result is
  \<open>None\<close>: the characters JavaScript prints for \<open>NaN\<close> are not modelled.
\<close>

definition getGMTString :: "TimeZone \<Rightarrow> Date \<Rightarrow> string option" where
  "getGMTString tz date = map_option composeGMTString (getOffset tz date)"

definition getRFCTimeZoneString :: "TimeZone \<Rightarrow> Date \<Rightarrow> string option" where
  "getRFCTimeZoneString tz date =
     (case getOffset tz date of
        None \<Rightarrow> None
      | Some off \<Rightarrow>
          let offset = - off;
              parts = [if offset < 0 then ''-'' else ''+''];
              offset = \<bar>offset\<bar>;
              parts = parts @ [padNumber ((offset div 60) mod 100) 2, padNumber (offset mod 60) 2]
          in Some (concat parts))"

definition getLongName :: "TimeZone \<Rightarrow> Date \<Rightarrow> string option" where
  "getLongName tz date =
     array_get (tzNames tz)
       (NameType_value (if isDaylightTime tz date then DLT_LONG_NAME else STD_LONG_NAME))"

definition getShortName :: "TimeZone \<Rightarrow> Date \<Rightarrow> string option" where
  "getShortName tz date =
     array_get (tzNames tz)
       (NameType_value (if isDaylightTime tz date then DLT_SHORT_NAME else STD_SHORT_NAME))"

definition getTimeZoneId :: "TimeZone \<Rightarrow> string" where
  "getTimeZoneId tz = timeZoneId tz"

section \<open>Reference definitions\<close>

text \<open>
  The definitions of this section are not translations of the source. They say, in the
  words of the specification, what the source is compared with.
\<close>

text \<open>A number from 0 to 99 as two decimal digits, the first one \<open>0\<close> below ten.\<close>

definition two_digits :: "int \<Rightarrow> string" where
  "two_digits n = [digit_char (nat n div 10), digit_char (nat n mod 10)]"

definition is_digit :: "char \<Rightarrow> bool" where
  "is_digit c \<longleftrightarrow> c \<in> set ''0123456789''"

text \<open>
  The transitions table read as the specification describes it: a sequence of
  (transition point, adjustment) pairs, in the order of the flat array.
\<close>

fun transition_pairs :: "int list \<Rightarrow> (int \<times> int) list" where
  "transition_pairs (p # a # rest) = (p, a) # transition_pairs rest"
| "transition_pairs _ = []"

text \<open>
  The hour value of an instant as the specification has it: the whole hours since the
  epoch, UTC, of its calendar day and hour, with the minutes, seconds and milliseconds
  dropped. The year counts as it stands: the year 80 is the year 80, not 1980.
\<close>

definition wholeHours :: "Date \<Rightarrow> int" where
  "wholeHours date =
     MakeDay (getUTCFullYear date) (getUTCMonth date) (getUTCDate date) * 24 + getUTCHours date"

text \<open>
  The lookup at hour granularity: the instant is first truncated to whole hours, and that
  whole number of hours is compared with the transition points.
\<close>

function wholeHours_scan :: "int list \<Rightarrow> int \<Rightarrow> nat \<Rightarrow> nat" where
  "wholeHours_scan ts hours index =
     (if index < length ts \<and> hours \<ge> ts ! index
      then wholeHours_scan ts hours (index + 2) else index)"
  by pat_completeness auto
termination
  by (relation "measure (\<lambda>(ts, hours, index). length ts - index)") auto

declare wholeHours_scan.simps [simp del]

definition getDaylightAdjustment_wholeHours :: "TimeZone \<Rightarrow> Date \<Rightarrow> int option" where
  "getDaylightAdjustment_wholeHours tz date =
     (let index = wholeHours_scan (transitions tz) (wholeHours date) 0
      in if index = 0 then Some 0 else array_get (transitions tz) (index - 1))"

text \<open>
  The UTC display string and the POSIX zone id as the specification words them: the sign,
  then the count of whole hours, then the minutes only when they are not zero. For the
  POSIX id the specification gives the sign \<open>+\<close> to a negative offset.
\<close>

definition claimed_UTCString :: "int \<Rightarrow> string" where
  "claimed_UTCString offset =
     (if offset = 0 then ''UTC''
      else ''UTC'' @ [if offset < 0 then CHR ''+'' else CHR ''-''] @
           String_of_int (\<bar>offset\<bar> div 60) @
           (if \<bar>offset\<bar> mod 60 \<noteq> 0 then '':'' @ String_of_int (\<bar>offset\<bar> mod 60) else []))"

definition claimed_PosixTimeZoneID :: "int \<Rightarrow> string" where
  "claimed_PosixTimeZoneID offset =
     (if offset = 0 then ''Etc/GMT''
      else ''Etc/GMT'' @ [if offset < 0 then CHR ''+'' else CHR ''-''] @
           String_of_int (\<bar>offset\<bar> div 60) @
           (if \<bar>offset\<bar> mod 60 \<noteq> 0 then '':'' @ two_digits (\<bar>offset\<bar> mod 60) else []))"

section \<open>Example data\<close>

text \<open>
  The descriptor of the scenario of the specification, with its two transition points
  \<open>h0\<close> and \<open>h1\<close> left open.
\<close>

definition LosAngeles :: "int \<Rightarrow> int \<Rightarrow> timeZoneData" where
  "LosAngeles h0 h1 =
     Object \<lparr> id_key = ''America/Los_Angeles'', std_offset = 480,
              names = [''PST'', ''Pacific Standard Time'', ''PDT'', ''Pacific Daylight Time''],
              transitions_key = [h0, 60, h1, 0] \<rparr>"

text \<open>
  The transition points of 2024: daylight time from 10 March, 10:00 UTC (hour 475018 since
  the epoch) to 3 November, 09:00 UTC (hour 480729).
\<close>

definition example_zone :: TimeZone where
  "example_zone = createTimeZone (LosAngeles 475018 480729)"

text \<open>4 July 2024, 12:30:15.250 UTC, and 15 January 2024, 08:05 UTC.\<close>

definition example_date :: Date where
  "example_date = \<lparr> getUTCFullYear = 2024, getUTCMonth = 6, getUTCDate = 4, getUTCHours = 12,
                    getUTCMinutes = 30, getUTCSeconds = 15, getUTCMilliseconds = 250 \<rparr>"

definition example_winter_date :: Date where
  "example_winter_date = \<lparr> getUTCFullYear = 2024, getUTCMonth = 0, getUTCDate = 15, getUTCHours = 8,
                    getUTCMinutes = 5, getUTCSeconds = 0, getUTCMilliseconds = 0 \<rparr>"

text \<open>
  The transition points of 1980: daylight time from 27 April, 10:00 UTC (hour 90466 since
  the epoch) to 26 October, 09:00 UTC (hour 94833).
\<close>

definition example_zone_1980 :: TimeZone where
  "example_zone_1980 = createTimeZone (LosAngeles 90466 94833)"

text \<open>
  4 July of the year 80, 12:30:15.250 UTC: an instant nineteen centuries before the epoch,
  whose \<open>getUTCFullYear()\<close> is 80.
\<close>

definition example_date_year_80 :: Date where
  "example_date_year_80 = \<lparr> getUTCFullYear = 80, getUTCMonth = 6, getUTCDate = 4, getUTCHours = 12,
                    getUTCMinutes = 30, getUTCSeconds = 15, getUTCMilliseconds = 250 \<rparr>"

section \<open>Decimal rendering and padding\<close>

lemma digit_char_0: "digit_char 0 = CHR ''0''"
  by (simp add: digit_char_def)

lemma digits_of_nat_small: "n < 10 \<Longrightarrow> digits_of_nat n = [digit_char n]"
  by (simp add: digits_of_nat.simps)

lemma digits_of_nat_two: "10 \<le> n \<Longrightarrow> n < 100 \<Longrightarrow> digits_of_nat n = [digit_char (n div 10), digit_char (n mod 10)]"
  by (subst digits_of_nat.simps) (simp add: digits_of_nat_small)

lemma padNumber_two_digits:
  assumes "0 \<le> n" and "n < 100"
  shows "padNumber n 2 = two_digits n"
proof (cases "n < 10")
  case True
  with assms have "digits_of_nat (nat n) = [digit_char (nat n)]"
    by (simp add: digits_of_nat_small)
  with True assms show ?thesis
    by (simp add: padNumber_def String_of_int_def two_digits_def digit_char_0 numeral_2_eq_2)
next
  case False
  with assms have "digits_of_nat (nat n) = [digit_char (nat n div 10), digit_char (nat n mod 10)]"
    by (simp add: digits_of_nat_two)
  with False assms show ?thesis
    by (simp add: padNumber_def String_of_int_def two_digits_def)
qed

lemma hour_field_range: "0 \<le> (\<bar>x::int\<bar> div 60) mod 100 \<and> (\<bar>x\<bar> div 60) mod 100 < 100"
  by simp

lemma minute_field_range: "0 \<le> \<bar>x::int\<bar> mod 60 \<and> \<bar>x\<bar> mod 60 < 100"
proof -
  have "\<bar>x\<bar> mod 60 < 60" by simp
  then show ?thesis by simp
qed

lemma is_digit_digit_char: "is_digit (digit_char d)"
  unfolding is_digit_def digit_char_def by (rule nth_mem) simp

lemma padNumber_5: "padNumber 5 2 = ''05''"
  by code_simp

lemma padNumber_30: "padNumber 30 2 = ''30''"
  by code_simp

section \<open>The scan of the transitions table\<close>

lemma transition_scan_stop:
  "\<not> (index < length ts \<and> of_int (ts ! index) \<le> h) \<Longrightarrow> transition_scan ts h index = index"
  by (subst transition_scan.simps) auto

lemma transition_scan_step:
  "index < length ts \<Longrightarrow> of_int (ts ! index) \<le> h \<Longrightarrow>
   transition_scan ts h index = transition_scan ts h (index + 2)"
  by (subst transition_scan.simps) simp

lemma length_transition_pairs: "length (transition_pairs ts) = length ts div 2"
  by (induction ts rule: transition_pairs.induct) simp_all

lemma transition_pairs_nth:
  "i < length (transition_pairs ts) \<Longrightarrow> transition_pairs ts ! i = (ts ! (2 * i), ts ! (2 * i + 1))"
proof (induction ts arbitrary: i rule: transition_pairs.induct)
  case (1 p a rest)
  then show ?case by (cases i) simp_all
qed simp_all

lemma drop_two:
  assumes "i < length ts" and "even (length ts - i)"
  shows "drop i ts = ts ! i # ts ! (i + 1) # drop (i + 2) ts"
proof -
  from assms have "i + 1 < length ts"
    by (cases "length ts - i = 1") auto
  then show ?thesis
    by (simp add: Cons_nth_drop_Suc)
qed

text \<open>
  On a table of even length the loop passes exactly the leading pairs whose point is at
  most the hour value.
\<close>

lemma transition_scan_takeWhile:
  "even (length ts - i) \<Longrightarrow>
   transition_scan ts h i =
     i + 2 * length (takeWhile (\<lambda>(p, a). of_int p \<le> h) (transition_pairs (drop i ts)))"
proof (induction ts h i rule: transition_scan.induct)
  case (1 ts h index)
  show ?case
  proof (cases "index < length ts")
    case False
    then show ?thesis by (subst transition_scan.simps) simp
  next
    case True
    note d = drop_two [OF True "1.prems"]
    show ?thesis
    proof (cases "of_int (ts ! index) \<le> h")
      case False
      with True d show ?thesis by (subst transition_scan.simps) simp
    next
      case le: True
      from True "1.prems" have "even (length ts - (index + 2))" by simp
      with "1.IH" True le
      have "transition_scan ts h (index + 2) =
            index + 2 + 2 * length (takeWhile (\<lambda>(p, a). of_int p \<le> h) (transition_pairs (drop (index + 2) ts)))"
        by simp
      with True le d show ?thesis by (subst transition_scan.simps) simp
    qed
  qed
qed

text \<open>Where the points are sorted, those leading pairs are all the pairs with such a point.\<close>

lemma filter_takeWhile_sorted:
  "sorted (map fst ps) \<Longrightarrow>
   filter (\<lambda>(p, a). (of_int p :: rat) \<le> h) ps = takeWhile (\<lambda>(p, a). of_int p \<le> h) ps"
proof (induction ps)
  case Nil
  then show ?case by simp
next
  case (Cons q ps)
  obtain p a where q: "q = (p, a)" by (cases q)
  show ?case
  proof (cases "of_int p \<le> h")
    case True
    with Cons q show ?thesis by simp
  next
    case False
    have "\<not> (of_int (fst r) :: rat) \<le> h" if "r \<in> set ps" for r
    proof -
      from Cons.prems q that have "p \<le> fst r" by auto
      then have "(of_int p :: rat) \<le> of_int (fst r)" by simp
      with False show ?thesis by simp
    qed
    then have "filter (\<lambda>(p, a). (of_int p :: rat) \<le> h) ps = []"
      by (auto simp: filter_empty_conv)
    with False q show ?thesis by simp
  qed
qed

lemma getDaylightAdjustment_takeWhile:
  assumes "even (length (transitions tz))"
  shows "getDaylightAdjustment tz date =
     Some (case takeWhile (\<lambda>(p, a). of_int p \<le> timeInHours date) (transition_pairs (transitions tz)) of
             [] \<Rightarrow> 0 | q # qs \<Rightarrow> snd (last (q # qs)))"
proof -
  define ts where "ts = transitions tz"
  define h where "h = timeInHours date"
  define ps where "ps = transition_pairs ts"
  define tw where "tw = takeWhile (\<lambda>(p, a). of_int p \<le> h) ps"
  define k where "k = length tw"
  from assms have scan: "transition_scan ts h 0 = 2 * k"
    using transition_scan_takeWhile [of ts 0 h] by (simp add: ts_def k_def tw_def ps_def)
  have k_le: "k \<le> length ps"
    by (simp add: k_def tw_def length_takeWhile_le)
  show ?thesis
  proof (cases "k = 0")
    case True
    then have "tw = []" by (simp add: k_def)
    with scan True show ?thesis
      by (simp add: getDaylightAdjustment_def ts_def [symmetric] h_def [symmetric]
          ps_def [symmetric] tw_def [symmetric])
  next
    case False
    then obtain q qs where tw: "tw = q # qs" by (cases tw) (simp_all add: k_def)
    from tw have "last tw = tw ! (k - 1)"
      by (simp add: last_conv_nth k_def)
    moreover from False have "tw ! (k - 1) = ps ! (k - 1)"
      unfolding tw_def k_def by (intro takeWhile_nth) simp
    ultimately have "last tw = ps ! (k - 1)" by simp
    moreover from False k_le have "k - 1 < length ps" by simp
    ultimately have "last tw = (ts ! (2 * (k - 1)), ts ! (2 * (k - 1) + 1))"
      by (simp add: ps_def transition_pairs_nth)
    moreover from False have "2 * (k - 1) + 1 = 2 * k - 1" by simp
    ultimately have last: "snd (last tw) = ts ! (2 * k - 1)" by simp
    from k_le False assms have "2 * k - 1 < length ts"
      by (simp add: ps_def length_transition_pairs ts_def)
    with scan False last tw show ?thesis
      by (simp add: getDaylightAdjustment_def ts_def [symmetric] h_def [symmetric]
          ps_def [symmetric] tw_def [symmetric] array_get_def)
  qed
qed

lemma getDaylightAdjustment_defined:
  assumes "even (length (transitions tz))"
  shows "\<exists>a. getDaylightAdjustment tz date = Some a"
  using getDaylightAdjustment_takeWhile [OF assms] by simp

lemma transition_scan_reads_in_bounds:
  "i \<in> set (transition_scan_reads ts h index) \<Longrightarrow> i < length ts"
proof (induction ts h index rule: transition_scan_reads.induct)
  case (1 ts h index)
  from "1.prems" show ?case
    by (subst (asm) transition_scan_reads.simps) (auto split: if_splits dest: "1.IH")
qed

text \<open>
  The positions listed are those of the loop: it ends two places further for every listed
  position whose point passed the test.
\<close>

lemma transition_scan_reads_stop:
  "\<not> (index < length ts \<and> of_int (ts ! index) \<le> h) \<Longrightarrow>
   transition_scan_reads ts h index = (if index < length ts then [index] else [])"
  by (subst transition_scan_reads.simps) auto

lemma transition_scan_reads_step:
  "index < length ts \<Longrightarrow> of_int (ts ! index) \<le> h \<Longrightarrow>
   transition_scan_reads ts h index = index # transition_scan_reads ts h (index + 2)"
  by (subst transition_scan_reads.simps) simp

lemma transition_scan_by_reads:
  "transition_scan ts h index =
     index + 2 * length (takeWhile (\<lambda>j. of_int (ts ! j) \<le> h) (transition_scan_reads ts h index))"
proof (induction ts h index rule: transition_scan.induct)
  case (1 ts h index)
  show ?case
  proof (cases "index < length ts \<and> of_int (ts ! index) \<le> h")
    case True
    with "1.IH" show ?thesis
      by (simp add: transition_scan_step transition_scan_reads_step)
  next
    case False
    then show ?thesis
      by (auto simp: transition_scan_stop transition_scan_reads_stop)
  qed
qed

lemma transition_scan_even_bound:
  "even (length ts) \<Longrightarrow> even index \<Longrightarrow> index \<le> length ts \<Longrightarrow>
   even (transition_scan ts h index) \<and> transition_scan ts h index \<le> length ts"
proof (induction ts h index rule: transition_scan.induct)
  case (1 ts h index)
  show ?case
  proof (cases "index < length ts \<and> of_int (ts ! index) \<le> h")
    case False
    with "1.prems" show ?thesis by (simp add: transition_scan_stop)
  next
    case True
    with "1.prems" have "index + 2 \<le> length ts"
      by (metis Suc_leI add_2_eq_Suc' even_Suc le_neq_implies_less nat_less_le)
    with "1.IH" True "1.prems" have "even (transition_scan ts h (index + 2)) \<and> transition_scan ts h (index + 2) \<le> length ts"
      by simp
    with True show ?thesis by (simp add: transition_scan_step)
  qed
qed

section \<open>The hour value of an instant\<close>

text \<open>
  Outside the years 0 to 99, \<open>Date.UTC\<close> of the fields of an instant is the start of its
  minute, and the hour value the code computes is the whole hours of the instant plus the
  fraction its minutes make. In the years 0 to 99 it is that of the instant 1900 years
  later.
\<close>

lemma Date_UTC_other_years:
  "y < 0 \<or> 99 < y \<Longrightarrow>
   Date_UTC y m d h mi = MakeDay y m d * 86400000 + h * 3600000 + mi * 60000"
  by (auto simp: Date_UTC_def MakeTime_def Let_def)

lemma Date_UTC_two_digit_year:
  "0 \<le> y \<Longrightarrow> y \<le> 99 \<Longrightarrow>
   Date_UTC y m d h mi = MakeDay (1900 + y) m d * 86400000 + h * 3600000 + mi * 60000"
  by (simp add: Date_UTC_def MakeTime_def Let_def)

lemma hours_of_milliseconds:
  "(of_int (D * 86400000 + h * 3600000 + mi * 60000) :: rat) / 3600000 =
   of_int (D * 24 + h) + of_int mi / 60"
  by (simp add: add_divide_distrib)

lemma timeInHours_wholeHours:
  assumes "getUTCFullYear date < 0 \<or> 99 < getUTCFullYear date"
  shows "timeInHours date = of_int (wholeHours date) + of_int (getUTCMinutes date) / 60"
  unfolding timeInHours_def wholeHours_def Let_def MILLISECONDS_PER_HOUR_def
  by (simp only: Date_UTC_other_years [OF assms] hours_of_milliseconds [symmetric])

lemma timeInHours_two_digit_year:
  assumes "0 \<le> getUTCFullYear date" and "getUTCFullYear date \<le> 99"
  shows "timeInHours date =
         of_int (wholeHours (date\<lparr>getUTCFullYear := 1900 + getUTCFullYear date\<rparr>)) +
         of_int (getUTCMinutes date) / 60"
  using assms
  by (simp add: timeInHours_def wholeHours_def Let_def MILLISECONDS_PER_HOUR_def
      Date_UTC_two_digit_year add_divide_distrib)

lemma point_le_timeInHours:
  assumes "getUTCFullYear date < 0 \<or> 99 < getUTCFullYear date"
    and "0 \<le> getUTCMinutes date" and "getUTCMinutes date < 60"
  shows "(of_int p \<le> timeInHours date) = (p \<le> wholeHours date)"
proof
  assume "p \<le> wholeHours date"
  then have "(of_int p :: rat) \<le> of_int (wholeHours date)" by simp
  moreover from assms(2) have "(0 :: rat) \<le> of_int (getUTCMinutes date) / 60" by simp
  ultimately show "of_int p \<le> timeInHours date"
    by (simp add: timeInHours_wholeHours [OF assms(1)])
next
  assume le: "of_int p \<le> timeInHours date"
  from assms(3) have "(of_int (getUTCMinutes date) :: rat) < 60" by simp
  then have "(of_int (getUTCMinutes date) :: rat) / 60 < 1" by simp
  with le have "(of_int p :: rat) < of_int (wholeHours date) + 1"
    by (simp add: timeInHours_wholeHours [OF assms(1)])
  then have "(of_int p :: rat) < of_int (wholeHours date + 1)" by simp
  then have "p < wholeHours date + 1" by (simp only: of_int_less_iff)
  then show "p \<le> wholeHours date" by simp
qed

lemma wholeHours_scan_stop:
  "\<not> (index < length ts \<and> ts ! index \<le> hours) \<Longrightarrow> wholeHours_scan ts hours index = index"
  by (subst wholeHours_scan.simps) auto

lemma wholeHours_scan_step:
  "index < length ts \<Longrightarrow> ts ! index \<le> hours \<Longrightarrow>
   wholeHours_scan ts hours index = wholeHours_scan ts hours (index + 2)"
  by (subst wholeHours_scan.simps) simp

lemma transition_scan_wholeHours:
  "(\<And>p. (of_int p \<le> h) = (p \<le> hours)) \<Longrightarrow>
   transition_scan ts h index = wholeHours_scan ts hours index"
proof (induction ts h index rule: transition_scan.induct)
  case (1 ts h index)
  show ?case
  proof (cases "index < length ts \<and> of_int (ts ! index) \<le> h")
    case True
    with "1.prems" have "ts ! index \<le> hours" by simp
    with True "1.IH" "1.prems" show ?thesis
      by (simp add: transition_scan_step wholeHours_scan_step)
  next
    case False
    with "1.prems" have "\<not> (index < length ts \<and> ts ! index \<le> hours)" by simp
    with False show ?thesis
      by (simp add: transition_scan_stop wholeHours_scan_stop)
  qed
qed

lemma LosAngeles_scan_between:
  assumes "of_int h0 \<le> h" and "h < of_int h1"
  shows "transition_scan [h0, 60, h1, 0] h 0 = 2"
proof -
  from assms(1) have "transition_scan [h0, 60, h1, 0] h 0 = transition_scan [h0, 60, h1, 0] h (0 + 2)"
    by (intro transition_scan_step) simp_all
  also from assms(2) have "\<dots> = 0 + 2"
    by (intro transition_scan_stop) simp
  finally show ?thesis by simp
qed

lemma LosAngeles_scan_before:
  assumes "h < of_int h0"
  shows "transition_scan [h0, 60, h1, 0] h 0 = 0"
  using assms by (intro transition_scan_stop) simp

section \<open>Daylight adjustment lookup\<close>

text \<open>
  On a table of even length with sorted points the loop returns the adjustment paired
  with the last transition point that is at most the hour value the code has computed,
  and 0 when there is none.
\<close>

lemma getDaylightAdjustment_last_le_timeInHours:
  assumes "even (length (transitions tz))"
    and "sorted (map fst (transition_pairs (transitions tz)))"
  shows "getDaylightAdjustment tz date =
     Some (case filter (\<lambda>(p, a). of_int p \<le> timeInHours date) (transition_pairs (transitions tz)) of
             [] \<Rightarrow> 0 | q # qs \<Rightarrow> snd (last (q # qs)))"
  using getDaylightAdjustment_takeWhile [OF assms(1)] filter_takeWhile_sorted [OF assms(2)]
  by simp

text \<open>
  For an instant of a year outside 0 to 99 this is the last transition point at or before
  the instant.
\<close>

lemma getDaylightAdjustment_last_transition_other_years:
  assumes "even (length (transitions tz))"
    and "sorted (map fst (transition_pairs (transitions tz)))"
    and "getUTCFullYear date < 0 \<or> 99 < getUTCFullYear date"
    and "0 \<le> getUTCMinutes date" and "getUTCMinutes date < 60"
  shows "getDaylightAdjustment tz date =
     Some (case filter (\<lambda>(p, a). p \<le> wholeHours date) (transition_pairs (transitions tz)) of
             [] \<Rightarrow> 0 | q # qs \<Rightarrow> snd (last (q # qs)))"
proof -
  have "(\<lambda>(p, a). of_int p \<le> timeInHours date) = (\<lambda>(p :: int, a :: int). p \<le> wholeHours date)"
    by (simp add: fun_eq_iff point_le_timeInHours [OF assms(3-5)])
  with getDaylightAdjustment_last_le_timeInHours [OF assms(1,2), of date]
  show ?thesis by simp
qed

lemma getDaylightAdjustment_last_transition_2024:
  "getDaylightAdjustment example_zone example_date = Some 60 \<and>
   getDaylightAdjustment example_zone example_winter_date = Some 0"
proof -
  have h1: "even (length (transitions example_zone))"
    by (simp add: example_zone_def LosAngeles_def)
  have h2: "sorted (map fst (transition_pairs (transitions example_zone)))"
    by (simp add: example_zone_def LosAngeles_def)
  have y: "getUTCFullYear example_date < 0 \<or> 99 < getUTCFullYear example_date"
    "getUTCFullYear example_winter_date < 0 \<or> 99 < getUTCFullYear example_winter_date"
    by (simp_all add: example_date_def example_winter_date_def)
  have m: "0 \<le> getUTCMinutes example_date" "getUTCMinutes example_date < 60"
    "0 \<le> getUTCMinutes example_winter_date" "getUTCMinutes example_winter_date < 60"
    by (simp_all add: example_date_def example_winter_date_def)
  have w1: "wholeHours example_date = 477804"
    by code_simp
  have w2: "wholeHours example_winter_date = 473696"
    by code_simp
  have ts: "transitions example_zone = [475018, 60, 480729, 0]"
    by (simp add: example_zone_def LosAngeles_def)
  from getDaylightAdjustment_last_transition_other_years [OF h1 h2 y(1) m(1,2)]
    getDaylightAdjustment_last_transition_other_years [OF h1 h2 y(2) m(3,4)]
  show ?thesis by (simp add: w1 w2 ts)
qed

text \<open>
  Claim C1. For every TimeZone whose transitions table has even length and whose
  transition points are sorted ascending, and for every instant, \<open>getDaylightAdjustment\<close>
  returns the adjustment paired with the last transition point that is less than or equal
  to the hour value of the instant, and 0 when no transition point is (the instant
  precedes the first transition, or the table is empty).

  The source does not do so for an instant of a year from 0 to 99, which \<open>Date.UTC\<close> reads
  as 1900 plus that year. The table of 1980 has even length and sorted points; 4 July of
  the year 80 is hour -16562940, before every transition point, so the adjustment is to be
  0; the source returns 60, the adjustment of 4 July 1980.
\<close>

theorem getDaylightAdjustment_year_80_last_transition:
  "even (length (transitions example_zone_1980)) \<and>
   sorted (map fst (transition_pairs (transitions example_zone_1980))) \<and>
   wholeHours example_date_year_80 = - 16562940 \<and>
   filter (\<lambda>(p, a). p \<le> wholeHours example_date_year_80)
     (transition_pairs (transitions example_zone_1980)) = [] \<and>
   getDaylightAdjustment example_zone_1980 example_date_year_80 = Some 60"
  by code_simp

text \<open>
  Claim C9. On a transitions table of even length, every position of the table that
  \<open>getDaylightAdjustment\<close> reads is within bounds, and the value returned is a number: 0 or
  an entry at an odd position of the table, that is, one of its adjustment values. The
  order of the points plays no part in this.
\<close>

theorem getDaylightAdjustment_reads_safe:
  assumes "even (length (transitions tz))"
  shows "(\<forall>i \<in> set (getDaylightAdjustment_reads tz date). i < length (transitions tz)) \<and>
         (\<exists>v. getDaylightAdjustment tz date = Some v \<and>
              (v = 0 \<or> (\<exists>j. odd j \<and> j < length (transitions tz) \<and> v = transitions tz ! j)))"
proof -
  define ts where "ts = transitions tz"
  define index where "index = transition_scan ts (timeInHours date) 0"
  from assms have ev: "even index" and le: "index \<le> length ts"
    using transition_scan_even_bound [of ts 0 "timeInHours date"] by (simp_all add: ts_def index_def)
  have last_read: "index - 1 < length ts \<and> odd (index - 1)" if "index \<noteq> 0"
    using that ev le by (cases index) auto
  have "\<forall>i \<in> set (getDaylightAdjustment_reads tz date). i < length ts"
    using last_read
    by (auto simp: getDaylightAdjustment_reads_def ts_def [symmetric] index_def [symmetric] Let_def
        dest: transition_scan_reads_in_bounds)
  moreover have "\<exists>v. getDaylightAdjustment tz date = Some v \<and>
              (v = 0 \<or> (\<exists>j. odd j \<and> j < length ts \<and> v = ts ! j))"
  proof (cases "index = 0")
    case True
    then show ?thesis
      by (simp add: getDaylightAdjustment_def ts_def [symmetric] index_def [symmetric])
  next
    case False
    with last_read have "getDaylightAdjustment tz date = Some (ts ! (index - 1))"
      by (simp add: getDaylightAdjustment_def ts_def [symmetric] index_def [symmetric] array_get_def)
    with last_read False show ?thesis by blast
  qed
  ultimately show ?thesis by (simp add: ts_def)
qed

theorem getDaylightAdjustment_reads_safe_witness:
  "even (length (transitions example_zone)) \<and>
   getDaylightAdjustment_reads example_zone example_date = [0, 2, 1] \<and>
   length (transitions example_zone) = 4 \<and>
   (\<exists>v. getDaylightAdjustment example_zone example_date = Some v \<and>
        (v = 0 \<or> (\<exists>j. odd j \<and> j < length (transitions example_zone) \<and> v = transitions example_zone ! j)))"
proof -
  have h: "even (length (transitions example_zone))"
    by (simp add: example_zone_def LosAngeles_def)
  have r: "getDaylightAdjustment_reads example_zone example_date = [0, 2, 1]"
    by code_simp
  have n: "length (transitions example_zone) = 4"
    by (simp add: example_zone_def LosAngeles_def)
  from h r n getDaylightAdjustment_reads_safe [OF h, of example_date]
  show ?thesis by simp
qed

text \<open>
  For an instant of a year outside 0 to 99 the lookup is the lookup at hour granularity,
  and the seconds and milliseconds of an instant never change the result.
\<close>

lemma getDaylightAdjustment_hour_granular_other_years:
  assumes "getUTCFullYear date < 0 \<or> 99 < getUTCFullYear date"
    and "0 \<le> getUTCMinutes date" and "getUTCMinutes date < 60"
  shows "getDaylightAdjustment tz date = getDaylightAdjustment_wholeHours tz date"
proof -
  have "transition_scan (transitions tz) (timeInHours date) 0 =
        wholeHours_scan (transitions tz) (wholeHours date) 0"
    by (rule transition_scan_wholeHours) (rule point_le_timeInHours [OF assms])
  then show ?thesis
    by (simp add: getDaylightAdjustment_def getDaylightAdjustment_wholeHours_def)
qed

lemma getDaylightAdjustment_ignores_seconds:
  "getDaylightAdjustment tz (date\<lparr>getUTCSeconds := s, getUTCMilliseconds := ms\<rparr>) =
   getDaylightAdjustment tz date"
proof -
  have "timeInHours (date\<lparr>getUTCSeconds := s, getUTCMilliseconds := ms\<rparr>) = timeInHours date"
    by (simp add: timeInHours_def)
  then show ?thesis
    by (simp add: getDaylightAdjustment_def)
qed

lemma getDaylightAdjustment_hour_granular_2024:
  "getDaylightAdjustment example_zone example_date = Some 60 \<and>
   getDaylightAdjustment_wholeHours example_zone example_date = Some 60"
proof -
  have y: "getUTCFullYear example_date < 0 \<or> 99 < getUTCFullYear example_date"
    by (simp add: example_date_def)
  have h1: "0 \<le> getUTCMinutes example_date"
    by (simp add: example_date_def)
  have h2: "getUTCMinutes example_date < 60"
    by (simp add: example_date_def)
  have v: "getDaylightAdjustment_wholeHours example_zone example_date = Some 60"
    by code_simp
  from v getDaylightAdjustment_hour_granular_other_years [OF y h1 h2, of example_zone]
  show ?thesis by simp
qed

text \<open>
  Claim C8. For every transitions table (its points are integers) and every instant,
  \<open>getDaylightAdjustment\<close> returns what the lookup at hour granularity returns, which first
  truncates the instant to whole hours by dropping its minutes, seconds and milliseconds;
  and changing the seconds and milliseconds of the instant does not change the result.

  The source does not agree with that lookup for an instant of a year from 0 to 99, which
  \<open>Date.UTC\<close> reads as 1900 plus that year. For 4 July of the year 80 and the table of
  1980 the lookup at hour granularity gives 0, at the hour -16562940; the source computes
  the hour value 92100.5 and returns 60.
\<close>

theorem getDaylightAdjustment_year_80_hour_granular:
  "wholeHours example_date_year_80 = - 16562940 \<and>
   timeInHours example_date_year_80 = 184201 / 2 \<and>
   getDaylightAdjustment_wholeHours example_zone_1980 example_date_year_80 = Some 0 \<and>
   getDaylightAdjustment example_zone_1980 example_date_year_80 = Some 60"
  by code_simp

section \<open>Offset, daylight time and names\<close>

text \<open>
  Claim C2. For every TimeZone and every instant, \<open>getOffset\<close> is the standard offset
  minus the daylight adjustment of the instant (west of Greenwich positive), and
  \<open>isDaylightTime\<close> holds exactly when the daylight adjustment is strictly greater than 0.
  On a table of even length the adjustment is a number, and so is the offset.
\<close>

theorem getOffset_isDaylightTime_spec:
  "getOffset tz date = map_option (\<lambda>adjustment. standardOffset tz - adjustment) (getDaylightAdjustment tz date)
   \<and> isDaylightTime tz date = (\<exists>adjustment. getDaylightAdjustment tz date = Some adjustment \<and> adjustment > 0)
   \<and> (even (length (transitions tz)) \<longrightarrow>
        (\<exists>adjustment. getDaylightAdjustment tz date = Some adjustment
           \<and> getOffset tz date = Some (standardOffset tz - adjustment)
           \<and> isDaylightTime tz date = (adjustment > 0)))"
proof (intro conjI impI)
  show "getOffset tz date = map_option (\<lambda>adjustment. standardOffset tz - adjustment) (getDaylightAdjustment tz date)"
    by (simp add: getOffset_def split: option.split)
  show "isDaylightTime tz date = (\<exists>adjustment. getDaylightAdjustment tz date = Some adjustment \<and> adjustment > 0)"
    by (simp add: isDaylightTime_def split: option.split)
  assume "even (length (transitions tz))"
  then obtain a where "getDaylightAdjustment tz date = Some a"
    using getDaylightAdjustment_defined by blast
  then show "\<exists>adjustment. getDaylightAdjustment tz date = Some adjustment
           \<and> getOffset tz date = Some (standardOffset tz - adjustment)
           \<and> isDaylightTime tz date = (adjustment > 0)"
    by (simp add: getOffset_def isDaylightTime_def)
qed

theorem getOffset_isDaylightTime_spec_witness:
  "even (length (transitions example_zone)) \<and>
   getDaylightAdjustment example_zone example_date = Some 60 \<and>
   getOffset example_zone example_date = Some (- 540) \<and>
   isDaylightTime example_zone example_date"
proof -
  have h: "even (length (transitions example_zone))"
    by (simp add: example_zone_def LosAngeles_def)
  have a: "getDaylightAdjustment example_zone example_date = Some 60"
    by code_simp
  have s: "standardOffset example_zone = - 480"
    by (simp add: example_zone_def LosAngeles_def)
  from h a s getOffset_isDaylightTime_spec [of example_zone example_date]
  show ?thesis by simp
qed

text \<open>
  The scenario of America/Los_Angeles, in terms of the hour value the code has computed.
\<close>

lemma LosAngeles_scenario_timeInHours:
  assumes "h0 < h1"
  shows "(of_int h0 \<le> timeInHours date \<and> timeInHours date < of_int h1 \<longrightarrow>
            getOffset (createTimeZone (LosAngeles h0 h1)) date =
              Some (standardOffset (createTimeZone (LosAngeles h0 h1)) - 60) \<and>
            isDaylightTime (createTimeZone (LosAngeles h0 h1)) date \<and>
            getShortName (createTimeZone (LosAngeles h0 h1)) date = Some ''PDT'') \<and>
         (timeInHours date < of_int h0 \<longrightarrow>
            \<not> isDaylightTime (createTimeZone (LosAngeles h0 h1)) date \<and>
            getShortName (createTimeZone (LosAngeles h0 h1)) date = Some ''PST'')"
proof (intro conjI impI)
  define tz where "tz = createTimeZone (LosAngeles h0 h1)"
  have ts: "transitions tz = [h0, 60, h1, 0]"
    and nm: "tzNames tz = [''PST'', ''Pacific Standard Time'', ''PDT'', ''Pacific Daylight Time'']"
    by (simp_all add: tz_def LosAngeles_def)
  {
    assume "of_int h0 \<le> timeInHours date \<and> timeInHours date < of_int h1"
    then have "transition_scan [h0, 60, h1, 0] (timeInHours date) 0 = 2"
      by (simp add: LosAngeles_scan_between)
    then have adj: "getDaylightAdjustment tz date = Some 60"
      by (simp add: getDaylightAdjustment_def ts array_get_def)
    then show "getOffset (createTimeZone (LosAngeles h0 h1)) date =
              Some (standardOffset (createTimeZone (LosAngeles h0 h1)) - 60)"
      by (simp add: getOffset_def tz_def)
    from adj show dl: "isDaylightTime (createTimeZone (LosAngeles h0 h1)) date"
      by (simp add: isDaylightTime_def tz_def)
    then show "getShortName (createTimeZone (LosAngeles h0 h1)) date = Some ''PDT''"
      using nm by (simp add: getShortName_def array_get_def tz_def)
  }
  {
    assume "timeInHours date < of_int h0"
    then have "transition_scan [h0, 60, h1, 0] (timeInHours date) 0 = 0"
      by (simp add: LosAngeles_scan_before)
    then have adj: "getDaylightAdjustment tz date = Some 0"
      by (simp add: getDaylightAdjustment_def ts)
    then show dl: "\<not> isDaylightTime (createTimeZone (LosAngeles h0 h1)) date"
      by (simp add: isDaylightTime_def tz_def)
    then show "getShortName (createTimeZone (LosAngeles h0 h1)) date = Some ''PST''"
      using nm by (simp add: getShortName_def array_get_def tz_def)
  }
qed

text \<open>For an instant of a year outside 0 to 99 this is the scenario of the specification.\<close>

lemma LosAngeles_scenario_other_years:
  assumes "h0 < h1"
    and "getUTCFullYear date < 0 \<or> 99 < getUTCFullYear date"
    and "0 \<le> getUTCMinutes date" and "getUTCMinutes date < 60"
  shows "(h0 \<le> wholeHours date \<and> wholeHours date < h1 \<longrightarrow>
            getOffset (createTimeZone (LosAngeles h0 h1)) date =
              Some (standardOffset (createTimeZone (LosAngeles h0 h1)) - 60) \<and>
            isDaylightTime (createTimeZone (LosAngeles h0 h1)) date \<and>
            getShortName (createTimeZone (LosAngeles h0 h1)) date = Some ''PDT'') \<and>
         (wholeHours date < h0 \<longrightarrow>
            \<not> isDaylightTime (createTimeZone (LosAngeles h0 h1)) date \<and>
            getShortName (createTimeZone (LosAngeles h0 h1)) date = Some ''PST'')"
proof -
  have le: "(of_int p \<le> timeInHours date) = (p \<le> wholeHours date)" for p
    by (rule point_le_timeInHours [OF assms(2-4)])
  have less: "(timeInHours date < of_int p) = (wholeHours date < p)" for p
    using le [of p] by (simp add: not_le [symmetric])
  from LosAngeles_scenario_timeInHours [OF assms(1), of date]
  show ?thesis by (simp only: le less)
qed

lemma LosAngeles_scenario_2024:
  "getOffset example_zone example_date = Some (- 540) \<and>
   isDaylightTime example_zone example_date \<and>
   getShortName example_zone example_date = Some ''PDT'' \<and>
   \<not> isDaylightTime example_zone example_winter_date \<and>
   getShortName example_zone example_winter_date = Some ''PST''"
proof -
  have h: "(475018 :: int) < 480729"
    by simp
  have y: "getUTCFullYear example_date < 0 \<or> 99 < getUTCFullYear example_date"
    "getUTCFullYear example_winter_date < 0 \<or> 99 < getUTCFullYear example_winter_date"
    by (simp_all add: example_date_def example_winter_date_def)
  have m: "0 \<le> getUTCMinutes example_date" "getUTCMinutes example_date < 60"
    "0 \<le> getUTCMinutes example_winter_date" "getUTCMinutes example_winter_date < 60"
    by (simp_all add: example_date_def example_winter_date_def)
  have w1: "wholeHours example_date = 477804"
    by code_simp
  have w2: "wholeHours example_winter_date = 473696"
    by code_simp
  have s: "standardOffset (createTimeZone (LosAngeles 475018 480729)) = - 480"
    by (simp add: LosAngeles_def)
  from s
    LosAngeles_scenario_other_years [OF h y(1) m(1,2)]
    LosAngeles_scenario_other_years [OF h y(2) m(3,4)]
  show ?thesis by (simp add: w1 w2 example_zone_def)
qed

text \<open>
  Claim C7. For the descriptor of America/Los_Angeles with \<open>std_offset\<close> 480, the names
  PST, Pacific Standard Time, PDT, Pacific Daylight Time and the transitions
  \<open>[h0, 60, h1, 0]\<close> with \<open>h0 < h1\<close> in epoch hours: every instant between \<open>h0\<close> and
  \<open>h1\<close> has the offset \<open>standardOffset - 60\<close>, is in daylight time and has the short
  name PDT; every instant before \<open>h0\<close> is not in daylight time and has the short name
  PST.

  The source does not do so for an instant of a year from 0 to 99, which \<open>Date.UTC\<close> reads
  as 1900 plus that year. With the transition points of 1980, 4 July of the year 80 is
  before \<open>h0\<close>; the source reports daylight time, the offset \<open>standardOffset - 60\<close> and the
  short name PDT.
\<close>

theorem LosAngeles_scenario_year_80:
  "(90466 :: int) < 94833 \<and>
   wholeHours example_date_year_80 < 90466 \<and>
   isDaylightTime (createTimeZone (LosAngeles 90466 94833)) example_date_year_80 \<and>
   getOffset (createTimeZone (LosAngeles 90466 94833)) example_date_year_80 = Some (- 540) \<and>
   getShortName (createTimeZone (LosAngeles 90466 94833)) example_date_year_80 = Some ''PDT''"
  by code_simp

section \<open>String formatters\<close>

text \<open>
  Claim C5. For every integer offset in minutes (west positive), \<open>composeGMTString\<close>
  returns GMT, then the sign \<open>+\<close> when the offset is at most 0 and \<open>-\<close> otherwise, then
  the whole hours of the absolute offset modulo 100 as two digits, a colon, and the
  remaining minutes as two digits; for the offset 330 it returns GMT-05:30.
\<close>

theorem composeGMTString_format:
  "composeGMTString offset =
     ''GMT'' @ [if offset \<le> 0 then CHR ''+'' else CHR ''-''] @
     two_digits ((\<bar>offset\<bar> div 60) mod 100) @ '':'' @ two_digits (\<bar>offset\<bar> mod 60)
   \<and> composeGMTString 330 = ''GMT-05:30''"
proof
  show "composeGMTString offset =
     ''GMT'' @ [if offset \<le> 0 then CHR ''+'' else CHR ''-''] @
     two_digits ((\<bar>offset\<bar> div 60) mod 100) @ '':'' @ two_digits (\<bar>offset\<bar> mod 60)"
    using hour_field_range [of offset] minute_field_range [of offset]
    by (simp add: composeGMTString_def padNumber_two_digits Let_def)
  show "composeGMTString 330 = ''GMT-05:30''"
    by code_simp
qed

text \<open>
  The UTC display string of the offset 6000 is UTC-0: the source reduces the hours modulo
  100, where the specification has the count of hours, 100.
\<close>

theorem composeUTCString_hours_counterexample:
  "composeUTCString 6000 = ''UTC-0'' \<and> claimed_UTCString 6000 = ''UTC-100'' \<and>
   composeUTCString 6000 \<noteq> claimed_UTCString 6000"
  by code_simp

text \<open>
  Claim C6, as amended. For every integer offset in minutes (west positive),
  \<open>composeUTCString\<close> returns UTC alone when the offset is 0, and otherwise UTC, then the
  sign \<open>+\<close> when the offset is negative and \<open>-\<close> otherwise, then the whole hours of the
  absolute offset modulo 100, not padded, then a colon and the remaining minutes, not
  padded, only when these minutes are not zero. The offset -120 gives UTC+2, and a zone
  made from the bare offset 0 has the name UTC.
\<close>

theorem composeUTCString_format:
  "composeUTCString offset =
     (if offset = 0 then ''UTC''
      else ''UTC'' @ [if offset < 0 then CHR ''+'' else CHR ''-''] @
           String_of_int ((\<bar>offset\<bar> div 60) mod 100) @
           (if \<bar>offset\<bar> mod 60 \<noteq> 0 then '':'' @ String_of_int (\<bar>offset\<bar> mod 60) else []))
   \<and> composeUTCString (-120) = ''UTC+2''
   \<and> tzNames (createTimeZone (Number 0)) = [''UTC'', ''UTC'']"
proof (intro conjI)
  show "composeUTCString offset =
     (if offset = 0 then ''UTC''
      else ''UTC'' @ [if offset < 0 then CHR ''+'' else CHR ''-''] @
           String_of_int ((\<bar>offset\<bar> div 60) mod 100) @
           (if \<bar>offset\<bar> mod 60 \<noteq> 0 then '':'' @ String_of_int (\<bar>offset\<bar> mod 60) else []))"
    by (simp add: composeUTCString_def Let_def)
  show "composeUTCString (-120) = ''UTC+2''"
    by code_simp
  show "tzNames (createTimeZone (Number 0)) = [''UTC'', ''UTC'']"
    by (simp add: createSimpleTimeZone_def composeUTCString_def Let_def)
qed

text \<open>
  The zone made from the bare offset -120 has the id Etc/GMT-2, not Etc/GMT+2: the source
  gives a negative offset the sign \<open>-\<close>. The id of the offset 6000 is Etc/GMT+0: the
  source reduces the hours modulo 100.
\<close>

theorem composePosixTimeZoneID_counterexample:
  "getTimeZoneId (createTimeZone (Number (-120))) = ''Etc/GMT-2'' \<and>
   getTimeZoneId (createTimeZone (Number (-120))) \<noteq> ''Etc/GMT+2'' \<and>
   claimed_PosixTimeZoneID (-120) = ''Etc/GMT+2'' \<and>
   composePosixTimeZoneID 6000 = ''Etc/GMT+0'' \<and>
   claimed_PosixTimeZoneID 6000 = ''Etc/GMT-100''"
  by code_simp

text \<open>
  Claim C3, as amended. A zone made from a bare numeric offset has the id that
  \<open>composePosixTimeZoneID\<close> gives: Etc/GMT for the offset 0, and otherwise Etc/GMT, then
  the sign \<open>-\<close> when the offset is negative and \<open>+\<close> otherwise, then the whole hours of
  the absolute offset modulo 100, not padded, then a colon and the remaining minutes as
  two digits only when these minutes are not zero. The bare offset -120 gives Etc/GMT-2.
\<close>

theorem composePosixTimeZoneID_format:
  "composePosixTimeZoneID offset =
     (if offset = 0 then ''Etc/GMT''
      else ''Etc/GMT'' @ [if offset < 0 then CHR ''-'' else CHR ''+''] @
           String_of_int ((\<bar>offset\<bar> div 60) mod 100) @
           (if \<bar>offset\<bar> mod 60 \<noteq> 0 then '':'' @ two_digits (\<bar>offset\<bar> mod 60) else []))
   \<and> getTimeZoneId (createTimeZone (Number offset)) = composePosixTimeZoneID offset
   \<and> getTimeZoneId (createTimeZone (Number (-120))) = ''Etc/GMT-2''"
proof (intro conjI)
  show "composePosixTimeZoneID offset =
     (if offset = 0 then ''Etc/GMT''
      else ''Etc/GMT'' @ [if offset < 0 then CHR ''-'' else CHR ''+''] @
           String_of_int ((\<bar>offset\<bar> div 60) mod 100) @
           (if \<bar>offset\<bar> mod 60 \<noteq> 0 then '':'' @ two_digits (\<bar>offset\<bar> mod 60) else []))"
    using minute_field_range [of offset]
    by (simp add: composePosixTimeZoneID_def Let_def padNumber_two_digits)
  show "getTimeZoneId (createTimeZone (Number offset)) = composePosixTimeZoneID offset"
    by (simp add: getTimeZoneId_def createSimpleTimeZone_def Let_def)
  show "getTimeZoneId (createTimeZone (Number (-120))) = ''Etc/GMT-2''"
    by code_simp
qed

text \<open>
  A zone of offset 330 has the RFC string -0530, not +0530: the source negates the
  offset and prints \<open>-\<close> for the negative value.
\<close>

theorem getRFCTimeZoneString_330_counterexample:
  "getOffset (createTimeZone (Number 330)) example_date = Some 330 \<and>
   getRFCTimeZoneString (createTimeZone (Number 330)) example_date = Some ''-0530'' \<and>
   getRFCTimeZoneString (createTimeZone (Number 330)) example_date \<noteq> Some ''+0530''"
  by code_simp

text \<open>
  Claim C4, as amended. For a TimeZone and an instant whose offset \<open>getOffset\<close> is 330
  minutes (west positive), \<open>getRFCTimeZoneString\<close> returns -0530.
\<close>

theorem getRFCTimeZoneString_330:
  assumes "getOffset tz date = Some 330"
  shows "getRFCTimeZoneString tz date = Some ''-0530''"
  using assms by (simp add: getRFCTimeZoneString_def padNumber_5 padNumber_30)

theorem getRFCTimeZoneString_330_witness:
  "getOffset (createTimeZone (Number 330)) example_date = Some 330 \<and>
   getRFCTimeZoneString (createTimeZone (Number 330)) example_date = Some ''-0530''"
proof -
  have h: "getOffset (createTimeZone (Number 330)) example_date = Some 330"
    by code_simp
  from h getRFCTimeZoneString_330 [OF h] show ?thesis by simp
qed

text \<open>
  Claim C10. For every TimeZone (on a transitions table of even length, where the
  adjustment is a number) and every instant, \<open>getRFCTimeZoneString\<close> returns a string of
  exactly five characters: a sign, \<open>+\<close> or \<open>-\<close>, and four decimal digits.
\<close>

theorem getRFCTimeZoneString_width:
  assumes "even (length (transitions tz))"
  shows "\<exists>s. getRFCTimeZoneString tz date = Some s \<and> length s = 5 \<and>
             (hd s = CHR ''+'' \<or> hd s = CHR ''-'') \<and> list_all is_digit (tl s)"
proof -
  from assms obtain a where a: "getDaylightAdjustment tz date = Some a"
    using getDaylightAdjustment_defined by blast
  define x where "x = - (standardOffset tz - a)"
  have "getRFCTimeZoneString tz date =
        Some ((if x < 0 then ''-'' else ''+'') @ two_digits ((\<bar>x\<bar> div 60) mod 100) @ two_digits (\<bar>x\<bar> mod 60))"
    using hour_field_range [of x] minute_field_range [of x] a
    by (simp add: getRFCTimeZoneString_def getOffset_def Let_def padNumber_two_digits x_def)
  then show ?thesis
    by (simp add: two_digits_def is_digit_digit_char)
qed

theorem getRFCTimeZoneString_width_witness:
  "even (length (transitions example_zone)) \<and>
   getRFCTimeZoneString example_zone example_date = Some ''+0900'' \<and>
   (\<exists>s. getRFCTimeZoneString example_zone example_date = Some s \<and> length s = 5 \<and>
        (hd s = CHR ''+'' \<or> hd s = CHR ''-'') \<and> list_all is_digit (tl s))"
proof -
  have h: "even (length (transitions example_zone))"
    by (simp add: example_zone_def LosAngeles_def)
  have v: "getRFCTimeZoneString example_zone example_date = Some ''+0900''"
    by code_simp
  from h v getRFCTimeZoneString_width [OF h, of example_date]
  show ?thesis by simp
qed

end
